theory Spec2Isabelle
  imports Main
begin

section \<open>Python values held by the tap and carried by the provider's JSON\<close>

text \<open>
  The attributes \<open>access_token\<close> and \<open>expires_in\<close> of the shared tap object hold whatever
  the provider's JSON document held, so they are modelled as Python values and not as a
  string and an integer. JSON numbers with a fraction (Python floats) are outside the model.
  A \<open>PDict\<close> is a parsed dictionary: its keys are distinct, so looking a key up with
  \<open>map_of\<close> is Python's subscript.
\<close>

datatype pyval =
    PNone
  | PBool bool
  | PInt int
  | PStr string
  | PList "pyval list"
  | PDict "(string \<times> pyval) list"

text \<open>Python's truth value, as \<open>not x\<close> and \<open>bool(x)\<close> compute it.\<close>

fun truthy :: "pyval \<Rightarrow> bool" where
  "truthy PNone = False"
| "truthy (PBool b) = b"
| "truthy (PInt n) = (n \<noteq> 0)"
| "truthy (PStr s) = (s \<noteq> [])"
| "truthy (PList xs) = (xs \<noteq> [])"
| "truthy (PDict kv) = (kv \<noteq> [])"

text \<open>
  \<open>HTTPError\<close> is what \<open>raise_for_status\<close> of the HTTP library raises; its text starts
  with the status code. An f-string is kept as its pieces: the literal text of the source
  and the values it formats, in order.
\<close>

datatype http_error = HTTPError int

datatype fpart = Lit string | Val pyval | Exc http_error

type_synonym fstring = "fpart list"

datatype error =
    RuntimeError fstring
  | KeyError string
  | TypeError
  | ValueError string
  | JSONDecodeError string
  | RequestException


text \<open>\<open>d[key]\<close>: only a dictionary can be subscripted with a string.\<close>

fun py_getitem :: "pyval \<Rightarrow> string \<Rightarrow> error + pyval" where
  "py_getitem (PDict kv) k = (case map_of kv k of None \<Rightarrow> Inl (KeyError k) | Some v \<Rightarrow> Inr v)"
| "py_getitem v k = Inl TypeError"

text \<open>\<open>n + v\<close> and \<open>v - n\<close> for an integer \<open>n\<close>: a \<open>bool\<close> counts as 0 or 1, anything
  else that is not a number raises \<open>TypeError\<close>.\<close>

fun py_int_add :: "int \<Rightarrow> pyval \<Rightarrow> error + pyval" where
  "py_int_add n (PInt e) = Inr (PInt (n + e))"
| "py_int_add n (PBool b) = Inr (PInt (n + (if b then 1 else 0)))"
| "py_int_add n v = Inl TypeError"

fun py_sub_int :: "pyval \<Rightarrow> int \<Rightarrow> error + int" where
  "py_sub_int (PInt e) n = Inr (e - n)"
| "py_sub_int (PBool b) n = Inr ((if b then 1 else 0) - n)"
| "py_sub_int v n = Inl TypeError"

section \<open>The world outside the authenticator: clock and identity provider\<close>

datatype body = JsonBody pyval | RawBody string

datatype http_outcome = NetworkError | Response int body

type_synonym post = "string \<times> (string \<times> pyval) list"

text \<open>
  \<open>utcnow w k n\<close> is the value of \<open>round(datetime.utcnow().timestamp())\<close> at the
  \<open>k\<close>-th reading, taken when \<open>n\<close> calls of \<open>requests.post\<close> have been made: a request
  takes time, so the clock may show another value once it has come back. \<open>reads\<close> counts
  the readings taken so far, \<open>provider w k rq\<close> is what the \<open>k\<close>-th call of
  \<open>requests.post\<close> meets when it sends \<open>rq\<close>, and \<open>posts\<close> is the log of the calls made,
  oldest first.
\<close>

record world =
  utcnow :: "nat \<Rightarrow> nat \<Rightarrow> int"
  reads :: nat
  provider :: "nat \<Rightarrow> post \<Rightarrow> http_outcome"
  posts :: "post list"

definition utc_timestamp :: "world \<Rightarrow> int \<times> world" where
  "utc_timestamp w = (utcnow w (reads w) (length (posts w)), w\<lparr>reads := Suc (reads w)\<rparr>)"

definition requests_post :: "string \<Rightarrow> (string \<times> pyval) list \<Rightarrow> world \<Rightarrow> http_outcome \<times> world" where
  "requests_post url payload w =
     (provider w (length (posts w)) (url, payload), w\<lparr>posts := posts w @ [(url, payload)]\<rparr>)"

text \<open>\<open>raise_for_status\<close> raises for the client and server error codes only.\<close>

definition raise_for_status :: "int \<Rightarrow> http_error option" where
  "raise_for_status status = (if 400 \<le> status \<and> status < 600 then Some (HTTPError status) else None)"

fun response_json :: "body \<Rightarrow> error + pyval" where
  "response_json (JsonBody j) = Inr j"
| "response_json (RawBody s) = Inl (JSONDecodeError s)"

section \<open>The authenticator\<close>

type_synonym config = "string \<rightharpoonup> pyval"

type_synonym headers = "string \<rightharpoonup> fstring"

text \<open>
  \<open>tap_object\<close> is the tap as the constructor finds it: an attribute may not exist yet
  (\<open>hasattr\<close> is false). \<open>tap\<close> is the tap once an authenticator has been constructed on it:
  both attributes exist.
\<close>

record tap_object =
  access_token_attr :: "pyval option"
  expires_in_attr :: "pyval option"

record tap =
  access_token :: pyval
  expires_in :: pyval

record authenticator =
  tap_config :: config
  auth_endpoint_attr :: string
  super_auth_headers :: headers

definition init :: "config \<Rightarrow> headers \<Rightarrow> tap_object \<Rightarrow> authenticator \<times> tap" where
  "init cfg base obj =
     (\<lparr>tap_config = cfg,
       auth_endpoint_attr = ''https://api.hubapi.com/oauth/v1/token'',
       super_auth_headers = base\<rparr>,
      \<lparr>access_token = (case access_token_attr obj of None \<Rightarrow> PNone | Some v \<Rightarrow> v),
       expires_in = (case expires_in_attr obj of None \<Rightarrow> PNone | Some v \<Rightarrow> v)\<rparr>)"

definition auth_endpoint :: "authenticator \<Rightarrow> error + string" where
  "auth_endpoint a =
     (if auth_endpoint_attr a = [] then Inl (ValueError ''Authorization endpoint not set.'')
      else Inr (auth_endpoint_attr a))"

definition config_getitem :: "config \<Rightarrow> string \<Rightarrow> error + pyval" where
  "config_getitem cfg k = (case cfg k of None \<Rightarrow> Inl (KeyError k) | Some v \<Rightarrow> Inr v)"

definition oauth_request_body :: "authenticator \<Rightarrow> error + (string \<times> pyval) list" where
  "oauth_request_body a =
     (case config_getitem (tap_config a) ''client_id'' of Inl e \<Rightarrow> Inl e | Inr cid \<Rightarrow>
     (case config_getitem (tap_config a) ''client_secret'' of Inl e \<Rightarrow> Inl e | Inr sec \<Rightarrow>
     (case config_getitem (tap_config a) ''redirect_uri'' of Inl e \<Rightarrow> Inl e | Inr uri \<Rightarrow>
     (case config_getitem (tap_config a) ''refresh_token'' of Inl e \<Rightarrow> Inl e | Inr rt \<Rightarrow>
        Inr [(''client_id'', cid), (''client_secret'', sec), (''redirect_uri'', uri),
             (''refresh_token'', rt), (''grant_type'', PStr ''refresh_token'')]))))"

definition oauth_request_payload :: "authenticator \<Rightarrow> error + (string \<times> pyval) list" where
  "oauth_request_payload a = oauth_request_body a"

text \<open>
  \<open>is_token_valid\<close>: the clock is read first; \<open>or\<close> stops at the first true operand, so
  the subtraction is reached only with a true token and a true expiry.
\<close>

definition is_token_valid :: "world \<Rightarrow> tap \<Rightarrow> (error + bool) \<times> world" where
  "is_token_valid w t =
     (let (now, w1) = utc_timestamp w in
      if \<not> truthy (access_token t) then (Inr False, w1)
      else if \<not> truthy (expires_in t) then (Inr False, w1)
      else (case py_sub_int (expires_in t) now of
              Inl e \<Rightarrow> (Inl e, w1)
            | Inr d \<Rightarrow> (Inr (\<not> (d < 60)), w1)))"

text \<open>
  \<open>update_access_token\<close>: the statements in the order of the source. The token is stored
  before \<open>expires_in\<close> is looked up, so a failure of that lookup, or of the addition,
  returns the tap with the new token already in it.
\<close>

definition failed_login :: "pyval \<Rightarrow> http_error \<Rightarrow> error" where
  "failed_login j ex =
     RuntimeError [Lit (''Failed OAuth login, response was '' @ [CHR 0x27]), Val j,
                   Lit ([CHR 0x27] @ ''. ''), Exc ex]"

definition update_access_token :: "authenticator \<Rightarrow> world \<Rightarrow> tap \<Rightarrow> (error + unit) \<times> world \<times> tap" where
  "update_access_token a w t =
     (let (request_time, w1) = utc_timestamp w in
      (case oauth_request_payload a of Inl e \<Rightarrow> (Inl e, w1, t) | Inr payload \<Rightarrow>
      (case auth_endpoint a of Inl e \<Rightarrow> (Inl e, w1, t) | Inr url \<Rightarrow>
      (let (outcome, w2) = requests_post url payload w1 in
       (case outcome of
          NetworkError \<Rightarrow> (Inl RequestException, w2, t)
        | Response status bdy \<Rightarrow>
            (case raise_for_status status of
               Some ex \<Rightarrow>
                 (case response_json bdy of
                    Inl e \<Rightarrow> (Inl e, w2, t)
                  | Inr j \<Rightarrow> (Inl (failed_login j ex), w2, t))
             | None \<Rightarrow>
                 (case response_json bdy of Inl e \<Rightarrow> (Inl e, w2, t) | Inr token_json \<Rightarrow>
                 (case py_getitem token_json ''access_token'' of Inl e \<Rightarrow> (Inl e, w2, t) | Inr tok \<Rightarrow>
                 (let t1 = t\<lparr>access_token := tok\<rparr> in
                  (case py_getitem token_json ''expires_in'' of Inl e \<Rightarrow> (Inl e, w2, t1) | Inr ttl \<Rightarrow>
                  (case py_int_add request_time ttl of Inl e \<Rightarrow> (Inl e, w2, t1) | Inr exp \<Rightarrow>
                     (Inr (), w2, t1\<lparr>expires_in := exp\<rparr>))))))))))))"

definition auth_headers :: "authenticator \<Rightarrow> world \<Rightarrow> tap \<Rightarrow> (error + headers) \<times> world \<times> tap" where
  "auth_headers a w t =
     (case is_token_valid w t of
        (Inl e, w1) \<Rightarrow> (Inl e, w1, t)
      | (Inr valid, w1) \<Rightarrow>
          (case (if \<not> valid then update_access_token a w1 t else (Inr (), w1, t)) of
             (Inl e, w2, t2) \<Rightarrow> (Inl e, w2, t2)
           | (Inr u, w2, t2) \<Rightarrow>
               (Inr ((super_auth_headers a)(''Authorization'' \<mapsto> [Lit ''Bearer '', Val (access_token t2)])),
                w2, t2)))"

section \<open>The configuration schema of the tap\<close>

datatype json_type = StringType | DateTimeType | ArrayType json_type

text \<open>\<open>config_jsonschema\<close>: name, type and \<open>required\<close> of each declared property.\<close>

definition config_jsonschema :: "(string \<times> json_type \<times> bool) list" where
  "config_jsonschema =
     [(''client_id'', StringType, True),
      (''client_secret'', StringType, True),
      (''refresh_token'', StringType, True),
      (''start_date'', DateTimeType, False),
      (''properties'', ArrayType StringType, True)]"

fun has_type :: "json_type \<Rightarrow> pyval \<Rightarrow> bool" where
  "has_type StringType (PStr s) = True"
| "has_type DateTimeType (PStr s) = True"
| "has_type (ArrayType ty) (PList xs) = list_all (has_type ty) xs"
| "has_type ty v = False"

text \<open>
  The tap's base class checks the configuration against the schema when the tap starts.
  A required property must be there. A declared property that is there must have its
  type (of a date-time only that it is a string), with two exceptions: a property that
  is not required may be \<open>None\<close>, and the values of the three credentials are wrapped as
  secret strings before the check, so that whatever they were they pass as strings.
  Properties the schema does not declare are allowed.
\<close>

definition secret_properties :: "string list" where
  "secret_properties = [''client_id'', ''client_secret'', ''refresh_token'']"

fun accepts_string :: "json_type \<Rightarrow> bool" where
  "accepts_string StringType = True"
| "accepts_string DateTimeType = True"
| "accepts_string (ArrayType ty) = False"

definition conforms :: "string \<Rightarrow> json_type \<Rightarrow> bool \<Rightarrow> pyval \<Rightarrow> bool" where
  "conforms name ty required v =
     (if List.member secret_properties name then accepts_string ty
      else if \<not> required \<and> v = PNone then True
      else has_type ty v)"

definition validate_config :: "config \<Rightarrow> bool" where
  "validate_config cfg =
     list_all (\<lambda>(name, ty, required).
        (case cfg name of None \<Rightarrow> \<not> required | Some v \<Rightarrow> conforms name ty required v))
       config_jsonschema"

section \<open>The invariant of the credential, in the words of the specification\<close>

text \<open>
  Follows the specification, not the source: \<open>access_token\<close> and \<open>expires_at\<close> are both
  present or both absent, where absent is Python's \<open>None\<close>.
\<close>

definition spec_both_or_neither :: "tap \<Rightarrow> bool" where
  "spec_both_or_neither t = ((access_token t = PNone) = (expires_in t = PNone))"

section \<open>Scenarios\<close>

text \<open>
  Concrete inputs for the theorems below: a clock that stands still, a clock that is
  \<open>d\<close> seconds further after every request, a provider that gives the same answer to
  every request, a tap on which no authenticator has been constructed
  yet, and two configurations that the schema accepts.
\<close>

definition steady_clock :: "int \<Rightarrow> nat \<Rightarrow> nat \<Rightarrow> int" where
  "steady_clock T k n = T"

definition latency_clock :: "int \<Rightarrow> int \<Rightarrow> nat \<Rightarrow> nat \<Rightarrow> int" where
  "latency_clock T d k n = T + d * int n"

definition always_answers :: "http_outcome \<Rightarrow> nat \<Rightarrow> post \<Rightarrow> http_outcome" where
  "always_answers out k rq = out"

definition world_at :: "int \<Rightarrow> http_outcome \<Rightarrow> world" where
  "world_at T out = \<lparr>utcnow = steady_clock T, reads = 0, provider = always_answers out, posts = []\<rparr>"

definition slow_world_at :: "int \<Rightarrow> int \<Rightarrow> http_outcome \<Rightarrow> world" where
  "slow_world_at T d out =
     \<lparr>utcnow = latency_clock T d, reads = 0, provider = always_answers out, posts = []\<rparr>"

definition fresh_tap :: tap_object where
  "fresh_tap = \<lparr>access_token_attr = None, expires_in_attr = None\<rparr>"

definition no_headers :: headers where
  "no_headers = Map.empty"

definition config_without_redirect_uri :: config where
  "config_without_redirect_uri =
     [''client_id'' \<mapsto> PStr ''id'', ''client_secret'' \<mapsto> PStr ''secret'',
      ''refresh_token'' \<mapsto> PStr ''rt'', ''properties'' \<mapsto> PList []]"

definition full_config :: config where
  "full_config = config_without_redirect_uri(''redirect_uri'' \<mapsto> PStr ''https://example.com/cb'')"

definition token_response :: "string \<Rightarrow> int \<Rightarrow> http_outcome" where
  "token_response tok ttl =
     Response 200 (JsonBody (PDict [(''access_token'', PStr tok), (''expires_in'', PInt ttl)]))"

definition token_only_response :: "string \<Rightarrow> http_outcome" where
  "token_only_response tok = Response 200 (JsonBody (PDict [(''access_token'', PStr tok)]))"

definition full_payload :: "(string \<times> pyval) list" where
  "full_payload =
     [(''client_id'', PStr ''id''), (''client_secret'', PStr ''secret''),
      (''redirect_uri'', PStr ''https://example.com/cb''), (''refresh_token'', PStr ''rt''),
      (''grant_type'', PStr ''refresh_token'')]"

section \<open>Evaluation and helper facts\<close>

lemmas scenario_defs =
  world_at_def slow_world_at_def steady_clock_def latency_clock_def always_answers_def
  fresh_tap_def no_headers_def
  full_config_def config_without_redirect_uri_def full_payload_def
  token_response_def token_only_response_def

lemmas model_defs =
  init_def auth_endpoint_def config_getitem_def oauth_request_body_def
  oauth_request_payload_def is_token_valid_def update_access_token_def auth_headers_def
  utc_timestamp_def requests_post_def raise_for_status_def failed_login_def Let_def

lemma full_config_fields:
  "full_config ''client_id'' = Some (PStr ''id'')"
  "full_config ''client_secret'' = Some (PStr ''secret'')"
  "full_config ''redirect_uri'' = Some (PStr ''https://example.com/cb'')"
  "full_config ''refresh_token'' = Some (PStr ''rt'')"
  by (simp_all add: full_config_def config_without_redirect_uri_def)

lemma run_eq: "f = (fst f, fst (snd f), snd (snd f))"
  by simp

lemma auth_endpoint_init:
  "auth_endpoint (fst (init cfg base obj)) = Inr ''https://api.hubapi.com/oauth/v1/token''"
  by (simp add: init_def auth_endpoint_def)

lemma oauth_request_payload_init:
  assumes "cfg ''client_id'' = Some cid" and "cfg ''client_secret'' = Some sec"
      and "cfg ''redirect_uri'' = Some uri" and "cfg ''refresh_token'' = Some rt"
  shows "oauth_request_payload (fst (init cfg base obj)) =
           Inr [(''client_id'', cid), (''client_secret'', sec), (''redirect_uri'', uri),
                (''refresh_token'', rt), (''grant_type'', PStr ''refresh_token'')]"
  using assms
  by (simp add: init_def oauth_request_payload_def oauth_request_body_def config_getitem_def)

lemma full_config_payload: "oauth_request_payload (fst (init full_config base obj)) = Inr full_payload"
  by (simp add: full_payload_def full_config_def config_without_redirect_uri_def 
     init_def oauth_request_payload_def oauth_request_body_def config_getitem_def)

lemma update_access_token_world:
  assumes "oauth_request_payload a = Inr payload" and "auth_endpoint a = Inr url"
      and "update_access_token a w t = (r, w', t')"
  shows "w' = w\<lparr>reads := Suc (reads w), posts := posts w @ [(url, payload)]\<rparr>"
  using assms
  by (auto simp add: update_access_token_def utc_timestamp_def requests_post_def Let_def
           split: http_outcome.splits option.splits sum.splits)

lemma is_token_valid_world: "snd (is_token_valid w t) = w\<lparr>reads := Suc (reads w)\<rparr>"
  by (simp add: is_token_valid_def utc_timestamp_def Let_def split: sum.splits)

lemma auth_headers_invalid:
  assumes "is_token_valid w t = (Inr False, w1)"
  shows "auth_headers a w t =
           (case update_access_token a w1 t of
              (Inl e, w2, t2) \<Rightarrow> (Inl e, w2, t2)
            | (Inr u, w2, t2) \<Rightarrow>
                (Inr ((super_auth_headers a)(''Authorization'' \<mapsto> [Lit ''Bearer '', Val (access_token t2)])),
                 w2, t2))"
  using assms by (simp add: auth_headers_def)

lemma auth_headers_valid:
  assumes "is_token_valid w t = (Inr True, w1)"
  shows "auth_headers a w t =
           (Inr ((super_auth_headers a)(''Authorization'' \<mapsto> [Lit ''Bearer '', Val (access_token t)])), w1, t)"
  using assms by (simp add: auth_headers_def)

lemma is_token_valid_falsy:
  assumes "\<not> truthy (access_token t) \<or> \<not> truthy (expires_in t)"
  shows "is_token_valid w t = (Inr False, w\<lparr>reads := Suc (reads w)\<rparr>)"
  using assms by (auto simp add: is_token_valid_def utc_timestamp_def)


lemma auth_headers_authorization:
  assumes "auth_headers a w t = (Inr h, w', t')"
  shows "h ''Authorization'' = Some [Lit ''Bearer '', Val (access_token t')]"
  using assms
  by (auto simp add: auth_headers_def split: prod.splits sum.splits if_splits)

lemma update_access_token_success_cases:
  assumes "update_access_token a w t = (Inr u, w', t')"
  shows "\<exists>url payload status kv ttl.
           posts w' = posts w @ [(url, payload)] \<and>
           provider w (length (posts w)) (url, payload) = Response status (JsonBody (PDict kv)) \<and>
           map_of kv ''access_token'' = Some (access_token t') \<and>
           map_of kv ''expires_in'' = Some ttl \<and>
           py_int_add (utcnow w (reads w) (length (posts w))) ttl = Inr (expires_in t')"
proof -
  obtain payload where pay: "oauth_request_payload a = Inr payload"
    using assms by (cases "oauth_request_payload a")
      (auto simp add: update_access_token_def utc_timestamp_def)
  obtain url where ep: "auth_endpoint a = Inr url"
    using assms pay by (cases "auth_endpoint a")
      (auto simp add: update_access_token_def utc_timestamp_def)
  obtain status bdy where out: "provider w (length (posts w)) (url, payload) = Response status bdy"
    using assms pay ep by (cases "provider w (length (posts w)) (url, payload)")
      (auto simp add: update_access_token_def utc_timestamp_def requests_post_def)
  have ok: "raise_for_status status = None"
    using assms pay ep out by (cases "raise_for_status status")
      (auto simp add: update_access_token_def utc_timestamp_def requests_post_def split: sum.splits)
  obtain j where bdy: "bdy = JsonBody j"
    using assms pay ep out ok by (cases bdy)
      (auto simp add: update_access_token_def utc_timestamp_def requests_post_def)
  obtain tok where tok: "py_getitem j ''access_token'' = Inr tok"
    using assms pay ep out ok bdy by (cases "py_getitem j ''access_token''")
      (auto simp add: update_access_token_def utc_timestamp_def requests_post_def)
  obtain kv where kv: "j = PDict kv"
    using tok by (cases j) auto
  obtain ttl where ttl: "py_getitem j ''expires_in'' = Inr ttl"
    using assms pay ep out ok bdy tok by (cases "py_getitem j ''expires_in''")
      (auto simp add: update_access_token_def utc_timestamp_def requests_post_def Let_def)
  obtain ex where ex: "py_int_add (utcnow w (reads w) (length (posts w))) ttl = Inr ex"
    using assms pay ep out ok bdy tok ttl by (cases "py_int_add (utcnow w (reads w) (length (posts w))) ttl")
      (auto simp add: update_access_token_def utc_timestamp_def requests_post_def Let_def)
  have res: "w' = w\<lparr>reads := Suc (reads w), posts := posts w @ [(url, payload)]\<rparr>"
            "t' = t\<lparr>access_token := tok, expires_in := ex\<rparr>"
    using assms pay ep out ok bdy tok ttl ex
    by (auto simp add: update_access_token_def utc_timestamp_def requests_post_def Let_def)
  from tok kv have m1: "map_of kv ''access_token'' = Some tok"
    by (auto split: option.splits)
  from ttl kv have m2: "map_of kv ''expires_in'' = Some ttl"
    by (auto split: option.splits)
  show ?thesis
    using res out bdy kv m1 m2 ex by auto
qed

section \<open>Lazy refresh in \<open>auth_headers\<close>\<close>



section \<open>What a refresh does to the credential\<close>

text \<open>
  Claim C2, as amended. When the token request meets a network error, or a response with
  a status from 400 to 599, or a body that is not JSON, or a JSON object without
  \<open>access_token\<close>, \<open>update_access_token\<close> raises and the tap holds the token and the
  expiry it held before. The exception is the \<open>RuntimeError\<close> of a failed login, with the
  decoded body and the HTTP error in its message, for a status from 400 to 599 with a
  JSON body; it is the transport's exception for a network error and \<open>KeyError\<close> for the
  missing field. For a JSON object that has \<open>access_token\<close> and no \<open>expires_in\<close> it
  raises \<open>KeyError\<close> and the expiry is the one held before.
\<close>

theorem update_access_token_failure_keeps_credential:
  assumes pay: "oauth_request_payload a = Inr payload"
      and ep: "auth_endpoint a = Inr url"
      and out: "provider w (length (posts w)) (url, payload) = out"
      and run: "update_access_token a w t = (r, w', t')"
  shows "(out = NetworkError \<longrightarrow> r = Inl RequestException \<and> t' = t) \<and>
         (\<forall>status j. out = Response status (JsonBody j) \<and> 400 \<le> status \<and> status < 600
            \<longrightarrow> r = Inl (failed_login j (HTTPError status)) \<and> t' = t) \<and>
         (\<forall>status s. out = Response status (RawBody s) \<longrightarrow> isl r \<and> t' = t) \<and>
         (\<forall>status kv. out = Response status (JsonBody (PDict kv)) \<and> \<not> (400 \<le> status \<and> status < 600) \<and>
              map_of kv ''access_token'' = None
            \<longrightarrow> r = Inl (KeyError ''access_token'') \<and> t' = t) \<and>
         (\<forall>status kv tok. out = Response status (JsonBody (PDict kv)) \<and> \<not> (400 \<le> status \<and> status < 600) \<and>
              map_of kv ''access_token'' = Some tok \<and> map_of kv ''expires_in'' = None
            \<longrightarrow> r = Inl (KeyError ''expires_in'') \<and> expires_in t' = expires_in t)"
proof (intro conjI impI allI)
  note defs = update_access_token_def utc_timestamp_def requests_post_def raise_for_status_def Let_def
  {
    assume "out = NetworkError"
    with pay ep out run show "r = Inl RequestException" and "t' = t"
      by (auto simp add: defs)
  }
  {
    fix status j assume "out = Response status (JsonBody j) \<and> 400 \<le> status \<and> status < 600"
    with pay ep out run show "r = Inl (failed_login j (HTTPError status))" and "t' = t"
      by (auto simp add: defs)
  }
  {
    fix status s assume "out = Response status (RawBody s)"
    with pay ep out run show "isl r" and "t' = t"
      by (auto simp add: defs split: if_splits)
  }
  {
    fix status kv
    assume "out = Response status (JsonBody (PDict kv)) \<and> \<not> (400 \<le> status \<and> status < 600) \<and>
              map_of kv ''access_token'' = None"
    with pay ep out run show "r = Inl (KeyError ''access_token'')" and "t' = t"
      by (auto simp add: defs)
  }
  {
    fix status kv tok
    assume "out = Response status (JsonBody (PDict kv)) \<and> \<not> (400 \<le> status \<and> status < 600) \<and>
              map_of kv ''access_token'' = Some tok \<and> map_of kv ''expires_in'' = None"
    with pay ep out run show "r = Inl (KeyError ''expires_in'')" and "expires_in t' = expires_in t"
      by (auto simp add: defs)
  }
qed

theorem update_access_token_failure_keeps_credential_witness:
  "update_access_token (fst (init full_config no_headers fresh_tap))
       (world_at 1000 (Response 401 (JsonBody (PDict [(''status'', PStr ''BAD_REFRESH_TOKEN'')]))))
       \<lparr>access_token = PStr ''old'', expires_in = PInt 900\<rparr>
     = (Inl (failed_login (PDict [(''status'', PStr ''BAD_REFRESH_TOKEN'')]) (HTTPError 401)),
        \<lparr>utcnow = steady_clock 1000, reads = 1,
         provider = always_answers (Response 401 (JsonBody (PDict [(''status'', PStr ''BAD_REFRESH_TOKEN'')]))),
         posts = [(''https://api.hubapi.com/oauth/v1/token'', full_payload)]\<rparr>,
        \<lparr>access_token = PStr ''old'', expires_in = PInt 900\<rparr>) \<and>
   fst (update_access_token (fst (init full_config no_headers fresh_tap))
       (world_at 1000 NetworkError) \<lparr>access_token = PStr ''old'', expires_in = PInt 900\<rparr>)
     = Inl RequestException \<and>
   snd (snd (update_access_token (fst (init full_config no_headers fresh_tap))
       (world_at 1000 NetworkError) \<lparr>access_token = PStr ''old'', expires_in = PInt 900\<rparr>))
     = \<lparr>access_token = PStr ''old'', expires_in = PInt 900\<rparr> \<and>
   snd (snd (update_access_token (fst (init full_config no_headers fresh_tap))
       (world_at 1000 (Response 503 (RawBody ''unavailable''))) \<lparr>access_token = PStr ''old'', expires_in = PInt 900\<rparr>))
     = \<lparr>access_token = PStr ''old'', expires_in = PInt 900\<rparr> \<and>
   fst (update_access_token (fst (init full_config no_headers fresh_tap))
       (world_at 1000 (Response 200 (JsonBody (PDict [(''expires_in'', PInt 1800)]))))
       \<lparr>access_token = PStr ''old'', expires_in = PInt 900\<rparr>)
     = Inl (KeyError ''access_token'') \<and>
   snd (snd (update_access_token (fst (init full_config no_headers fresh_tap))
       (world_at 1000 (Response 200 (JsonBody (PDict [(''expires_in'', PInt 1800)]))))
       \<lparr>access_token = PStr ''old'', expires_in = PInt 900\<rparr>))
     = \<lparr>access_token = PStr ''old'', expires_in = PInt 900\<rparr> \<and>
   fst (update_access_token (fst (init full_config no_headers fresh_tap))
       (world_at 1000 (token_only_response ''new'')) \<lparr>access_token = PStr ''old'', expires_in = PInt 900\<rparr>)
     = Inl (KeyError ''expires_in'') \<and>
   expires_in (snd (snd (update_access_token (fst (init full_config no_headers fresh_tap))
       (world_at 1000 (token_only_response ''new'')) \<lparr>access_token = PStr ''old'', expires_in = PInt 900\<rparr>)))
     = PInt 900"
proof -
  let ?a = "fst (init full_config no_headers fresh_tap)"
  let ?url = "''https://api.hubapi.com/oauth/v1/token''"
  let ?t = "\<lparr>access_token = PStr ''old'', expires_in = PInt 900\<rparr>"
  let ?bad = "Response 401 (JsonBody (PDict [(''status'', PStr ''BAD_REFRESH_TOKEN'')]))"
  have h1: "oauth_request_payload ?a = Inr full_payload"
    by (rule full_config_payload)
  have h2: "auth_endpoint ?a = Inr ?url"
    by (rule auth_endpoint_init)
  have h3: "provider (world_at 1000 out) (length (posts (world_at 1000 out))) (?url, full_payload) = out"
    for out by (simp add: scenario_defs)
  note th = update_access_token_failure_keeps_credential [OF h1 h2 h3 run_eq, of _ ?t]
  from th [of ?bad]
  have r: "fst (update_access_token ?a (world_at 1000 ?bad) ?t)
          = Inl (failed_login (PDict [(''status'', PStr ''BAD_REFRESH_TOKEN'')]) (HTTPError 401))"
    and t: "snd (snd (update_access_token ?a (world_at 1000 ?bad) ?t)) = ?t"
    by simp_all
  from update_access_token_world [OF h1 h2 run_eq, of "world_at 1000 ?bad" ?t]
  have w: "fst (snd (update_access_token ?a (world_at 1000 ?bad) ?t)) =
        \<lparr>utcnow = steady_clock 1000, reads = 1, provider = always_answers ?bad,
         posts = [(?url, full_payload)]\<rparr>"
    by (simp add: scenario_defs)
  from r w t have first: "update_access_token ?a (world_at 1000 ?bad) ?t =
      (Inl (failed_login (PDict [(''status'', PStr ''BAD_REFRESH_TOKEN'')]) (HTTPError 401)),
       \<lparr>utcnow = steady_clock 1000, reads = 1, provider = always_answers ?bad,
         posts = [(?url, full_payload)]\<rparr>, ?t)"
    by (metis prod.collapse)
  from th [of NetworkError]
  have net: "fst (update_access_token ?a (world_at 1000 NetworkError) ?t) = Inl RequestException"
      "snd (snd (update_access_token ?a (world_at 1000 NetworkError) ?t)) = ?t"
    by simp_all
  from th [of "Response 503 (RawBody ''unavailable'')"]
  have raw: "snd (snd (update_access_token ?a (world_at 1000 (Response 503 (RawBody ''unavailable''))) ?t)) = ?t"
    by simp
  from th [of "Response 200 (JsonBody (PDict [(''expires_in'', PInt 1800)]))"]
  have notok: "fst (update_access_token ?a
          (world_at 1000 (Response 200 (JsonBody (PDict [(''expires_in'', PInt 1800)])))) ?t)
        = Inl (KeyError ''access_token'')"
      "snd (snd (update_access_token ?a
          (world_at 1000 (Response 200 (JsonBody (PDict [(''expires_in'', PInt 1800)])))) ?t)) = ?t"
    by simp_all
  from th [of "token_only_response ''new''"]
  have nottl: "fst (update_access_token ?a (world_at 1000 (token_only_response ''new'')) ?t)
        = Inl (KeyError ''expires_in'')"
      "expires_in (snd (snd (update_access_token ?a (world_at 1000 (token_only_response ''new'')) ?t)))
        = PInt 900"
    by (simp_all add: token_only_response_def)
  from first net raw notok nottl show ?thesis
    by blast
qed

text \<open>
  The claim as first stated fails: a 200 response that has \<open>access_token\<close> and no
  \<open>expires_in\<close> ends in \<open>KeyError\<close> with the new token already stored; a network error
  ends in the transport's exception; and a 304 response with both fields is taken as a
  success.
\<close>

theorem update_access_token_partial_update_counterexample:
  "update_access_token (fst (init full_config no_headers fresh_tap))
       (world_at 1000 (token_only_response ''abc'')) \<lparr>access_token = PNone, expires_in = PNone\<rparr>
     = (Inl (KeyError ''expires_in''),
        \<lparr>utcnow = steady_clock 1000, reads = 1, provider = always_answers (token_only_response ''abc''),
         posts = [(''https://api.hubapi.com/oauth/v1/token'', full_payload)]\<rparr>,
        \<lparr>access_token = PStr ''abc'', expires_in = PNone\<rparr>) \<and>
   fst (update_access_token (fst (init full_config no_headers fresh_tap))
       (world_at 1000 NetworkError) \<lparr>access_token = PNone, expires_in = PNone\<rparr>)
     = Inl RequestException \<and>
   update_access_token (fst (init full_config no_headers fresh_tap))
       (world_at 1000 (Response 304 (JsonBody (PDict [(''access_token'', PStr ''abc''), (''expires_in'', PInt 1800)]))))
       \<lparr>access_token = PNone, expires_in = PNone\<rparr>
     = (Inr (),
        \<lparr>utcnow = steady_clock 1000, reads = 1,
         provider = always_answers (Response 304 (JsonBody (PDict [(''access_token'', PStr ''abc''), (''expires_in'', PInt 1800)]))),
         posts = [(''https://api.hubapi.com/oauth/v1/token'', full_payload)]\<rparr>,
        \<lparr>access_token = PStr ''abc'', expires_in = PInt 2800\<rparr>)"
  by (simp add: model_defs scenario_defs)

text \<open>
  Claim C3. When the provider answers with a status that is no error and a JSON object
  whose \<open>expires_in\<close> is the integer \<open>E\<close>, \<open>update_access_token\<close> returns with the
  response's token stored and the expiry \<open>T + E\<close>. \<open>T\<close> is the value the clock shows at
  the first reading of the call while the request is not yet in the log, that is before
  it is sent, and not the value it shows once the response is there; the call reads the
  clock once.
\<close>

theorem update_access_token_stores_request_time_plus_ttl:
  assumes "oauth_request_payload a = Inr payload"
      and "auth_endpoint a = Inr url"
      and "provider w (length (posts w)) (url, payload) = Response status (JsonBody (PDict kv))"
      and "raise_for_status status = None"
      and "map_of kv ''access_token'' = Some tok"
      and "map_of kv ''expires_in'' = Some (PInt E)"
      and "update_access_token a w t = (r, w', t')"
  shows "r = Inr () \<and>
         t' = \<lparr>access_token = tok, expires_in = PInt (utcnow w (reads w) (length (posts w)) + E)\<rparr> \<and>
         w' = w\<lparr>reads := Suc (reads w), posts := posts w @ [(url, payload)]\<rparr> \<and>
         length (posts w') = Suc (length (posts w)) \<and>
         (utcnow w (reads w') (length (posts w')) \<noteq> utcnow w (reads w) (length (posts w))
            \<longrightarrow> expires_in t' \<noteq> PInt (utcnow w (reads w') (length (posts w')) + E))"
  using assms
  by (auto simp add: update_access_token_def utc_timestamp_def requests_post_def Let_def)

theorem update_access_token_stores_request_time_plus_ttl_witness:
  "update_access_token (fst (init full_config no_headers fresh_tap))
       (slow_world_at 1000 7 (token_response ''abc123'' 1800)) \<lparr>access_token = PNone, expires_in = PNone\<rparr>
     = (Inr (),
        \<lparr>utcnow = latency_clock 1000 7, reads = 1, provider = always_answers (token_response ''abc123'' 1800),
         posts = [(''https://api.hubapi.com/oauth/v1/token'', full_payload)]\<rparr>,
        \<lparr>access_token = PStr ''abc123'', expires_in = PInt 2800\<rparr>) \<and>
   utcnow (slow_world_at 1000 7 (token_response ''abc123'' 1800)) 0 0 = 1000 \<and>
   utcnow (slow_world_at 1000 7 (token_response ''abc123'' 1800)) 1 1 = 1007 \<and>
   expires_in (snd (snd (update_access_token (fst (init full_config no_headers fresh_tap))
       (slow_world_at 1000 7 (token_response ''abc123'' 1800)) \<lparr>access_token = PNone, expires_in = PNone\<rparr>)))
     \<noteq> PInt (1007 + 1800)"
proof -
  let ?a = "fst (init full_config no_headers fresh_tap)"
  let ?w = "slow_world_at 1000 7 (token_response ''abc123'' 1800)"
  let ?t = "\<lparr>access_token = PNone, expires_in = PNone\<rparr>"
  let ?kv = "[(''access_token'', PStr ''abc123''), (''expires_in'', PInt 1800)]"
  have h1: "oauth_request_payload ?a = Inr full_payload"
    by (rule full_config_payload)
  have h2: "auth_endpoint ?a = Inr ''https://api.hubapi.com/oauth/v1/token''"
    by (rule auth_endpoint_init)
  have h3: "provider ?w (length (posts ?w)) (''https://api.hubapi.com/oauth/v1/token'', full_payload)
              = Response 200 (JsonBody (PDict ?kv))"
    by (simp add: scenario_defs)
  have h4: "raise_for_status 200 = None"
    by (simp add: raise_for_status_def)
  have h5: "map_of ?kv ''access_token'' = Some (PStr ''abc123'')" by simp
  have h6: "map_of ?kv ''expires_in'' = Some (PInt 1800)" by simp
  note th = update_access_token_stores_request_time_plus_ttl [OF h1 h2 h3 h4 h5 h6 run_eq, of ?t]
  have clock: "utcnow ?w 0 0 = 1000" "utcnow ?w 1 1 = 1007" "reads ?w = 0" "posts ?w = []"
    by (simp_all add: scenario_defs)
  from th clock have r: "fst (update_access_token ?a ?w ?t) = Inr ()"
    and t: "snd (snd (update_access_token ?a ?w ?t)) = \<lparr>access_token = PStr ''abc123'', expires_in = PInt 2800\<rparr>"
    and w: "fst (snd (update_access_token ?a ?w ?t)) =
        \<lparr>utcnow = latency_clock 1000 7, reads = 1, provider = always_answers (token_response ''abc123'' 1800),
         posts = [(''https://api.hubapi.com/oauth/v1/token'', full_payload)]\<rparr>"
    by (simp_all add: scenario_defs)
  from r w t have run: "update_access_token ?a ?w ?t =
      (Inr (), \<lparr>utcnow = latency_clock 1000 7, reads = 1,
         provider = always_answers (token_response ''abc123'' 1800),
         posts = [(''https://api.hubapi.com/oauth/v1/token'', full_payload)]\<rparr>,
       \<lparr>access_token = PStr ''abc123'', expires_in = PInt 2800\<rparr>)"
    by (metis prod.collapse)
  from run t clock show ?thesis by simp
qed

text \<open>
  Claim C4. On a tap without the two attributes the constructor leaves both \<open>None\<close>, and
  the specification's invariant holds. A response that has \<open>access_token\<close> and no
  \<open>expires_in\<close> then makes \<open>auth_headers\<close> raise \<open>KeyError\<close> with the token stored and
  the expiry still \<open>None\<close>: the invariant is broken on this failure path.
\<close>

theorem auth_headers_breaks_both_or_neither:
  "init full_config no_headers fresh_tap =
     (\<lparr>tap_config = full_config, auth_endpoint_attr = ''https://api.hubapi.com/oauth/v1/token'',
       super_auth_headers = no_headers\<rparr>,
      \<lparr>access_token = PNone, expires_in = PNone\<rparr>) \<and>
   spec_both_or_neither \<lparr>access_token = PNone, expires_in = PNone\<rparr> \<and>
   fst (auth_headers (fst (init full_config no_headers fresh_tap))
       (world_at 1000 (token_only_response ''abc'')) \<lparr>access_token = PNone, expires_in = PNone\<rparr>)
     = Inl (KeyError ''expires_in'') \<and>
   snd (snd (auth_headers (fst (init full_config no_headers fresh_tap))
       (world_at 1000 (token_only_response ''abc'')) \<lparr>access_token = PNone, expires_in = PNone\<rparr>))
     = \<lparr>access_token = PStr ''abc'', expires_in = PNone\<rparr> \<and>
   \<not> spec_both_or_neither \<lparr>access_token = PStr ''abc'', expires_in = PNone\<rparr>"
  by (simp add: model_defs scenario_defs spec_both_or_neither_def)

text \<open>
  Claim C5, as amended. Whenever \<open>auth_headers\<close> returns headers, they carry the token
  the tap holds. Either no request was sent, the tap is unchanged and the expiry is at
  least 60 seconds after the clock value of the check; or one request was sent, the token
  is the response's and the expiry is the clock value read by the refresh plus the
  response's \<open>expires_in\<close>, which nothing compares with 60 again.
\<close>

theorem auth_headers_token_lifetime:
  assumes run: "auth_headers a w t = (Inr h, w', t')"
  shows "h ''Authorization'' = Some [Lit ''Bearer '', Val (access_token t')] \<and>
         (posts w' = posts w \<and> t' = t \<and> truthy (access_token t) \<and>
            (\<exists>d. py_sub_int (expires_in t) (utcnow w (reads w) (length (posts w))) = Inr d \<and> 60 \<le> d)
          \<or>
          (\<exists>url payload status kv ttl.
             posts w' = posts w @ [(url, payload)] \<and>
             provider w (length (posts w)) (url, payload) = Response status (JsonBody (PDict kv)) \<and>
             map_of kv ''access_token'' = Some (access_token t') \<and>
             map_of kv ''expires_in'' = Some ttl \<and>
             py_int_add (utcnow w (Suc (reads w)) (length (posts w))) ttl = Inr (expires_in t')))"
proof
  show "h ''Authorization'' = Some [Lit ''Bearer '', Val (access_token t')]"
    by (rule auth_headers_authorization [OF run])
next
  let ?w1 = "w\<lparr>reads := Suc (reads w)\<rparr>"
  have w1: "snd (is_token_valid w t) = ?w1" by (rule is_token_valid_world)
  from run obtain valid where v: "is_token_valid w t = (Inr valid, ?w1)"
    using w1 by (cases "is_token_valid w t"; cases "fst (is_token_valid w t)")
      (auto simp add: auth_headers_def)
  show "posts w' = posts w \<and> t' = t \<and> truthy (access_token t) \<and>
            (\<exists>d. py_sub_int (expires_in t) (utcnow w (reads w) (length (posts w))) = Inr d \<and> 60 \<le> d)
          \<or>
          (\<exists>url payload status kv ttl.
             posts w' = posts w @ [(url, payload)] \<and>
             provider w (length (posts w)) (url, payload) = Response status (JsonBody (PDict kv)) \<and>
             map_of kv ''access_token'' = Some (access_token t') \<and>
             map_of kv ''expires_in'' = Some ttl \<and>
             py_int_add (utcnow w (Suc (reads w)) (length (posts w))) ttl = Inr (expires_in t'))"
  proof (cases valid)
    case True
    with v run have same: "w' = ?w1" "t' = t"
      by (auto simp add: auth_headers_valid)
    from v True have "truthy (access_token t) \<and>
            (\<exists>d. py_sub_int (expires_in t) (utcnow w (reads w) (length (posts w))) = Inr d \<and> 60 \<le> d)"
      by (auto simp add: is_token_valid_def utc_timestamp_def split: if_splits sum.splits)
    with same show ?thesis by simp
  next
    case False
    with v run obtain u where "update_access_token a ?w1 t = (Inr u, w', t')"
      by (auto simp add: auth_headers_invalid split: prod.splits sum.splits)
    from update_access_token_success_cases [OF this] show ?thesis by simp
  qed
qed

theorem auth_headers_token_lifetime_witness:
  "projr (fst (auth_headers (fst (init full_config no_headers fresh_tap))
       (world_at 1000 NetworkError) \<lparr>access_token = PStr ''xyz'', expires_in = PInt 4600\<rparr>)) ''Authorization''
     = Some [Lit ''Bearer '', Val (PStr ''xyz'')] \<and>
   projr (fst (auth_headers (fst (init full_config no_headers fresh_tap))
       (world_at 1000 (token_response ''abc123'' 1800)) \<lparr>access_token = PNone, expires_in = PNone\<rparr>)) ''Authorization''
     = Some [Lit ''Bearer '', Val (PStr ''abc123'')]"
proof -
  let ?a = "fst (init full_config no_headers fresh_tap)"
  let ?w = "world_at 1000 NetworkError"
  let ?t = "\<lparr>access_token = PStr ''xyz'', expires_in = PInt 4600\<rparr>"
  let ?w2 = "world_at 1000 (token_response ''abc123'' 1800)"
  let ?t2 = "\<lparr>access_token = PNone, expires_in = PNone\<rparr>"
  have run: "auth_headers ?a ?w ?t =
      (Inr (projr (fst (auth_headers ?a ?w ?t))), fst (snd (auth_headers ?a ?w ?t)), ?t)"
    by (simp add: model_defs scenario_defs)
  have run2: "auth_headers ?a ?w2 ?t2 =
      (Inr (projr (fst (auth_headers ?a ?w2 ?t2))), fst (snd (auth_headers ?a ?w2 ?t2)),
       \<lparr>access_token = PStr ''abc123'', expires_in = PInt 2800\<rparr>)"
    by (simp add: model_defs scenario_defs)
  from auth_headers_token_lifetime [OF run] auth_headers_token_lifetime [OF run2]
  show ?thesis by simp
qed

text \<open>
  The claim as first stated fails: with \<open>expires_in = 10\<close> in the response, the call
  returns a token whose expiry is 10 seconds after the clock value of the check.
\<close>

theorem auth_headers_short_lived_token_counterexample:
  "auth_headers (fst (init full_config no_headers fresh_tap))
       (world_at 1000 (token_response ''abc'' 10)) \<lparr>access_token = PNone, expires_in = PNone\<rparr>
     = (Inr (no_headers(''Authorization'' \<mapsto> [Lit ''Bearer '', Val (PStr ''abc'')])),
        \<lparr>utcnow = steady_clock 1000, reads = 2, provider = always_answers (token_response ''abc'' 10),
         posts = [(''https://api.hubapi.com/oauth/v1/token'', full_payload)]\<rparr>,
        \<lparr>access_token = PStr ''abc'', expires_in = PInt 1010\<rparr>) \<and>
   py_sub_int (PInt 1010) (utcnow (world_at 1000 (token_response ''abc'' 10)) 0 0) = Inr 10"
  by (simp add: model_defs scenario_defs)

text \<open>
  Claim C6. A 502 response whose body is not JSON: the handler that builds the
  \<open>RuntimeError\<close> decodes the body first, so the decoding error is what leaves
  \<open>update_access_token\<close>, without the status and without the failed-login message.
\<close>

theorem update_access_token_error_body_not_json:
  "update_access_token (fst (init full_config no_headers fresh_tap))
       (world_at 1000 (Response 502 (RawBody ''<html>Bad Gateway</html>'')))
       \<lparr>access_token = PNone, expires_in = PNone\<rparr>
     = (Inl (JSONDecodeError ''<html>Bad Gateway</html>''),
        \<lparr>utcnow = steady_clock 1000, reads = 1,
         provider = always_answers (Response 502 (RawBody ''<html>Bad Gateway</html>'')),
         posts = [(''https://api.hubapi.com/oauth/v1/token'', full_payload)]\<rparr>,
        \<lparr>access_token = PNone, expires_in = PNone\<rparr>)"
  by (simp add: model_defs scenario_defs)

section \<open>The token request\<close>

text \<open>
  Claim C7. With a configuration that holds the four credentials, every call of
  \<open>update_access_token\<close> adds exactly one request to the log: a POST to the endpoint the
  constructor fixes, whose form data are the four configured values, unchanged, and
  \<open>grant_type = refresh_token\<close>.
\<close>

theorem update_access_token_posts_once:
  assumes "cfg ''client_id'' = Some cid" and "cfg ''client_secret'' = Some sec"
      and "cfg ''redirect_uri'' = Some uri" and "cfg ''refresh_token'' = Some rt"
      and "update_access_token (fst (init cfg base obj)) w t = (r, w', t')"
  shows "posts w' = posts w @
           [(''https://api.hubapi.com/oauth/v1/token'',
             [(''client_id'', cid), (''client_secret'', sec), (''redirect_uri'', uri),
              (''refresh_token'', rt), (''grant_type'', PStr ''refresh_token'')])]"
  using update_access_token_world [OF oauth_request_payload_init [OF assms(1-4)] auth_endpoint_init assms(5)]
  by simp

theorem update_access_token_posts_once_witness:
  "posts (fst (snd (update_access_token (fst (init full_config no_headers fresh_tap))
       (world_at 1000 NetworkError) \<lparr>access_token = PNone, expires_in = PNone\<rparr>)))
     = [(''https://api.hubapi.com/oauth/v1/token'',
         [(''client_id'', PStr ''id''), (''client_secret'', PStr ''secret''),
          (''redirect_uri'', PStr ''https://example.com/cb''), (''refresh_token'', PStr ''rt''),
          (''grant_type'', PStr ''refresh_token'')])]"
proof -
  let ?run = "update_access_token (fst (init full_config no_headers fresh_tap))
       (world_at 1000 NetworkError) \<lparr>access_token = PNone, expires_in = PNone\<rparr>"
  have run: "?run = (fst ?run, fst (snd ?run), snd (snd ?run))"
    by simp
  have "posts (world_at 1000 NetworkError) = []"
    by (simp add: world_at_def)
  with update_access_token_posts_once [OF full_config_fields run]
  show ?thesis by simp
qed

section \<open>The configuration at start\<close>

text \<open>
  Claim C8. The schema declares \<open>client_id\<close>, \<open>client_secret\<close> and \<open>refresh_token\<close>
  required and does not declare \<open>redirect_uri\<close>: a configuration without \<open>client_id\<close> is
  rejected at start, one without \<open>redirect_uri\<close> is accepted, and its first refresh
  raises \<open>KeyError\<close> before any request is sent.
\<close>

theorem config_without_redirect_uri_accepted:
  "\<not> validate_config (full_config(''client_id'' := None)) \<and>
   validate_config config_without_redirect_uri \<and>
   update_access_token (fst (init config_without_redirect_uri no_headers fresh_tap))
       (world_at 1000 (token_response ''abc'' 1800)) \<lparr>access_token = PNone, expires_in = PNone\<rparr>
     = (Inl (KeyError ''redirect_uri''),
        \<lparr>utcnow = steady_clock 1000, reads = 1, provider = always_answers (token_response ''abc'' 1800),
         posts = []\<rparr>,
        \<lparr>access_token = PNone, expires_in = PNone\<rparr>)"
  by (simp add: model_defs scenario_defs validate_config_def config_jsonschema_def
      conforms_def secret_properties_def)

section \<open>Presence is truth\<close>

text \<open>
  Claim C10. A credential whose token is the empty string, or whose expiry is 0, is not
  valid, exactly like the credential with that field \<open>None\<close>, and \<open>auth_headers\<close>
  continues with \<open>update_access_token\<close>.
\<close>

theorem falsy_credential_is_invalid:
  assumes "access_token t = PStr [] \<or> expires_in t = PInt 0"
  shows "is_token_valid w t = (Inr False, w\<lparr>reads := Suc (reads w)\<rparr>) \<and>
         is_token_valid w (t\<lparr>access_token := PNone\<rparr>) = is_token_valid w t \<and>
         is_token_valid w (t\<lparr>expires_in := PNone\<rparr>) = is_token_valid w t \<and>
         auth_headers a w t =
           (case update_access_token a (w\<lparr>reads := Suc (reads w)\<rparr>) t of
              (Inl e, w2, t2) \<Rightarrow> (Inl e, w2, t2)
            | (Inr u, w2, t2) \<Rightarrow>
                (Inr ((super_auth_headers a)(''Authorization'' \<mapsto> [Lit ''Bearer '', Val (access_token t2)])),
                 w2, t2))"
proof -
  from assms have falsy: "\<not> truthy (access_token t) \<or> \<not> truthy (expires_in t)"
    by auto
  have inv: "is_token_valid w t = (Inr False, w\<lparr>reads := Suc (reads w)\<rparr>)"
    by (rule is_token_valid_falsy [OF falsy])
  have a1: "is_token_valid w (t\<lparr>access_token := PNone\<rparr>) = (Inr False, w\<lparr>reads := Suc (reads w)\<rparr>)"
    by (rule is_token_valid_falsy) simp
  have a2: "is_token_valid w (t\<lparr>expires_in := PNone\<rparr>) = (Inr False, w\<lparr>reads := Suc (reads w)\<rparr>)"
    by (rule is_token_valid_falsy) simp
  show ?thesis
    using inv a1 a2 auth_headers_invalid [OF inv] by simp
qed

theorem falsy_credential_is_invalid_witness:
  "is_token_valid (world_at 1000 NetworkError) \<lparr>access_token = PStr [], expires_in = PInt 5000\<rparr>
     = (Inr False, \<lparr>utcnow = steady_clock 1000, reads = 1, provider = always_answers NetworkError, posts = []\<rparr>) \<and>
   is_token_valid (world_at 1000 NetworkError) \<lparr>access_token = PStr ''xyz'', expires_in = PInt 0\<rparr>
     = (Inr False, \<lparr>utcnow = steady_clock 1000, reads = 1, provider = always_answers NetworkError, posts = []\<rparr>)"
  using falsy_credential_is_invalid [of "\<lparr>access_token = PStr [], expires_in = PInt 5000\<rparr>"
          "world_at 1000 NetworkError" "fst (init full_config no_headers fresh_tap)"]
        falsy_credential_is_invalid [of "\<lparr>access_token = PStr ''xyz'', expires_in = PInt 0\<rparr>"
          "world_at 1000 NetworkError" "fst (init full_config no_headers fresh_tap)"]
  by (simp add: scenario_defs)

end
